theory Spec2Isabelle
  imports Complex_Main
begin

section \<open>Python values and exceptions\<close>

text \<open>
  The exception classes the handlers of the three modules tell apart. \<open>NotFound\<close> is a
  subclass of \<open>HTTPException\<close>, and every class but \<open>CancelledError\<close> is a subclass of
  \<open>Exception\<close>; \<open>CancelledError\<close> stands for the classes that derive from
  \<open>BaseException\<close> only, which an \<open>except Exception\<close> clause does not catch.
  \<open>OtherException\<close> is any further subclass of \<open>Exception\<close>.
\<close>

datatype exn =
    KeyError | TypeError | AttributeError
  | NotFound | HTTPException | OtherException
  | CancelledError

fun isinstance_Exception :: "exn \<Rightarrow> bool" where
  "isinstance_Exception CancelledError = False"
| "isinstance_Exception _ = True"

text \<open>
  What \<open>response.json()\<close> returns: a decoded JSON document. A dict is an association list
  (keys distinct, looked up with \<open>map_of\<close>). JSON numbers with a fraction are left out.
\<close>

datatype json =
    JNull | JBool bool | JInt int | JStr string
  | JList "json list"
  | JObj "(string \<times> json) list"

text \<open>Python's \<open>sub in s\<close> on two strings: \<open>sub\<close> occurs in \<open>s\<close> as a contiguous run.\<close>

fun str_contains :: "string \<Rightarrow> string \<Rightarrow> bool" where
  "str_contains sub [] = (sub = [])"
| "str_contains sub (c # cs) = (take (length sub) (c # cs) = sub \<or> str_contains sub cs)"

text \<open>\<open>k in v\<close> for a string \<open>k\<close>: key membership on a dict, element membership on a list,
  substring on a string, \<open>TypeError\<close> on a value that is not iterable.\<close>

fun py_contains :: "string \<Rightarrow> json \<Rightarrow> exn + bool" where
  "py_contains k (JObj kvs) = Inr (map_of kvs k \<noteq> None)"
| "py_contains k (JList xs) = Inr (List.member xs (JStr k))"
| "py_contains k (JStr s) = Inr (str_contains k s)"
| "py_contains k _ = Inl TypeError"

text \<open>\<open>v[k]\<close> for a string \<open>k\<close>: the value on a dict, \<open>KeyError\<close> when the key is absent,
  \<open>TypeError\<close> on every other value (a list or string takes integer indices, the rest are
  not subscriptable).\<close>

fun py_getitem :: "json \<Rightarrow> string \<Rightarrow> exn + json" where
  "py_getitem (JObj kvs) k = (case map_of kvs k of None \<Rightarrow> Inl KeyError | Some v \<Rightarrow> Inr v)"
| "py_getitem _ k = Inl TypeError"

text \<open>\<open>for item in v\<close>: the elements of a list, the keys of a dict, the characters of a
  string, \<open>TypeError\<close> otherwise.\<close>

fun py_iter :: "json \<Rightarrow> exn + json list" where
  "py_iter (JList xs) = Inr xs"
| "py_iter (JObj kvs) = Inr (map (\<lambda>kv. JStr (fst kv)) kvs)"
| "py_iter (JStr s) = Inr (map (\<lambda>c. JStr [c]) s)"
| "py_iter _ = Inl TypeError"

section \<open>subsonic.py\<close>

subsection \<open>class Song\<close>

text \<open>
  The five private attributes of a \<open>Song\<close>; the properties \<open>id\<close>, \<open>title\<close>, \<open>album\<close>,
  \<open>artist\<close> and \<open>duration\<close> return them unchanged, so each record field is named after
  its property (\<open>song_id\<close> for \<open>id\<close>). Python does not check the annotations, so a field
  holds whatever JSON value the record carried.
\<close>

record Song =
  song_id :: json
  title :: json
  album :: json
  artist :: json
  duration :: json

text \<open>\<open>json_object[k] if k in json_object else d\<close>: the membership test runs first.\<close>

definition field_or :: "json \<Rightarrow> string \<Rightarrow> json \<Rightarrow> exn + json" where
  "field_or json_object k d =
     (case py_contains k json_object of
        Inl e \<Rightarrow> Inl e
      | Inr True \<Rightarrow> py_getitem json_object k
      | Inr False \<Rightarrow> Inr d)"

text \<open>
  \<open>Song.__init__\<close>, assignment by assignment: \<open>_id\<close>, \<open>_title\<close>, then \<open>_album\<close> read from
  the key \<open>'artist'\<close> with default \<open>'Unknown Artist'\<close>, then \<open>_artist\<close> read from the key
  \<open>'album'\<close> with default \<open>'Unknown Album'\<close>, then \<open>_duration\<close>.
\<close>

definition Song_init :: "json \<Rightarrow> exn + Song" where
  "Song_init json_object =
     (case field_or json_object ''id'' (JStr []) of Inl e \<Rightarrow> Inl e | Inr v_id \<Rightarrow>
     (case field_or json_object ''title'' (JStr ''Unknown Track'') of Inl e \<Rightarrow> Inl e | Inr v_title \<Rightarrow>
     (case field_or json_object ''artist'' (JStr ''Unknown Artist'') of Inl e \<Rightarrow> Inl e | Inr v_album \<Rightarrow>
     (case field_or json_object ''album'' (JStr ''Unknown Album'') of Inl e \<Rightarrow> Inl e | Inr v_artist \<Rightarrow>
     (case field_or json_object ''duration'' (JInt 0) of Inl e \<Rightarrow> Inl e | Inr v_duration \<Rightarrow>
        Inr \<lparr>song_id = v_id, title = v_title, album = v_album, artist = v_artist,
             duration = v_duration\<rparr>)))))"

subsection \<open>The catalog requests\<close>

text \<open>
  A request as the three functions build it: the endpoint and the parameters they add to
  \<open>SUBSONIC_REQUEST_PARAMS\<close>. An optional parameter of \<open>get_random_songs\<close> that is \<open>None\<close>
  is not sent.
\<close>

datatype request =
    Search3 string int int int int int int
  | GetRandomSongs "int option" "string option" "int option" "int option" "string option"
  | GetSimilarSongs2 int int

text \<open>The remote service: what \<open>requests.get(...)\<close> followed by \<open>response.json()\<close> gives
  for a request, a decoded document or the exception either call raised.\<close>

type_synonym server = "request \<Rightarrow> exn + json"

text \<open>\<open>for item in ...: results.append(Song(item))\<close>\<close>

fun append_songs :: "json list \<Rightarrow> Song list \<Rightarrow> exn + Song list" where
  "append_songs [] results = Inr results"
| "append_songs (item # items) results =
     (case Song_init item of
        Inl e \<Rightarrow> Inl e
      | Inr s \<Rightarrow> append_songs items (results @ [s]))"

text \<open>The tail the three functions share:
  \<open>search_data["subsonic-response"][key]['song']\<close>, then the loop over it.\<close>

definition songs_of_response :: "string \<Rightarrow> json \<Rightarrow> exn + Song list" where
  "songs_of_response result_key search_data =
     (case py_getitem search_data ''subsonic-response'' of Inl e \<Rightarrow> Inl e | Inr r \<Rightarrow>
     (case py_getitem r result_key of Inl e \<Rightarrow> Inl e | Inr res \<Rightarrow>
     (case py_getitem res ''song'' of Inl e \<Rightarrow> Inl e | Inr sl \<Rightarrow>
     (case py_iter sl of Inl e \<Rightarrow> Inl e | Inr items \<Rightarrow>
        append_songs items []))))"

definition search ::
  "server \<Rightarrow> string \<Rightarrow> int \<Rightarrow> int \<Rightarrow> int \<Rightarrow> int \<Rightarrow> int \<Rightarrow> int \<Rightarrow> exn + Song list" where
  "search srv query artist_count artist_offset album_count album_offset song_count song_offset =
     (case srv (Search3 query artist_count artist_offset album_count album_offset
                  song_count song_offset) of
        Inl e \<Rightarrow> Inl e
      | Inr search_data \<Rightarrow> songs_of_response ''searchResult3'' search_data)"

definition get_random_songs ::
  "server \<Rightarrow> int option \<Rightarrow> string option \<Rightarrow> int option \<Rightarrow> int option \<Rightarrow> string option
     \<Rightarrow> exn + Song list" where
  "get_random_songs srv size_opt genre from_year to_year music_folder_id =
     (case srv (GetRandomSongs size_opt genre from_year to_year music_folder_id) of
        Inl e \<Rightarrow> Inl e
      | Inr search_data \<Rightarrow> songs_of_response ''randomSongs'' search_data)"

definition get_similar_songs :: "server \<Rightarrow> int \<Rightarrow> int \<Rightarrow> exn + Song list" where
  "get_similar_songs srv ident count =
     (case srv (GetSimilarSongs2 ident count) of
        Inl e \<Rightarrow> Inl e
      | Inr search_data \<Rightarrow> songs_of_response ''similarSongs2'' search_data)"

text \<open>A reply whose result object is empty: the service found nothing and sent no
  \<open>song\<close> key.\<close>

definition no_match_reply :: "string \<Rightarrow> json" where
  "no_match_reply result_key = JObj [(''subsonic-response'', JObj [(result_key, JObj [])])]"

section \<open>ui.py\<close>

subsection \<open>The interaction and what a sender does\<close>

text \<open>What one pass through the body of the \<open>try\<close> does: the send call returns, or it
  raises.\<close>

datatype outcome = Delivered | Raises exn

text \<open>
  A \<open>discord.Interaction\<close> as the senders use it: \<open>guild\<close> is \<open>None\<close> or a guild id;
  \<open>is_done n\<close> is what \<open>interaction.response.is_done()\<close> answers, and \<open>delivery n\<close> what
  the send call does, in the pass made while \<open>attempt = n\<close>. The parameter of a sender
  is an \<open>interaction option\<close>: the interaction itself may be \<open>None\<close>.
\<close>

record interaction =
  guild :: "nat option"
  is_done :: "nat \<Rightarrow> bool"
  delivery :: "nat \<Rightarrow> outcome"

text \<open>The arguments of a send call: the attached file (\<open>None\<close> for \<open>MISSING\<close>), the embed's
  title and description, whether the embed's thumbnail was set, and \<open>ephemeral\<close>.\<close>

record payload =
  attached_file :: "string option"
  embed_title :: string
  embed_description :: "string option"
  embed_thumbnail :: bool
  ephemeral :: bool

text \<open>
  What a sender does, in order: its logger calls, its send calls (each a delivery
  attempt) and its sleeps. \<open>Log_warning_attempt n e\<close> is the warning of the \<open>NotFound\<close> and
  \<open>HTTPException\<close> clauses with \<open>n = attempt+1\<close>, \<open>Log_error_unexpected\<close> the error of the
  \<open>Exception\<close> clause, \<open>Log_error_exhausted n\<close> the error after the loop. The logged
  texts of the two senders differ only in the words "system message" and "error message".
\<close>

datatype ui_event =
    Log_warning_invalid
  | Log_error_thumbnail
  | Followup_send payload
  | Response_send_message payload
  | Log_warning_attempt nat exn
  | Log_error_unexpected exn
  | Sleep real
  | Log_error_exhausted nat

definition prepend :: "'e list \<Rightarrow> 'e list \<times> 'r \<Rightarrow> 'e list \<times> 'r" where
  "prepend evs res = (evs @ fst res, snd res)"

text \<open>The send call of a pass: \<open>followup.send\<close> when the response is already done,
  \<open>response.send_message\<close> otherwise.\<close>

definition send_call :: "interaction \<Rightarrow> payload \<Rightarrow> nat \<Rightarrow> ui_event" where
  "send_call i p attempt =
     (if is_done i attempt then Followup_send p else Response_send_message p)"

text \<open>
  The loop \<open>attempt = 0; while attempt < 3: try: ... except ...\<close>, which both senders
  contain with the same clauses. A pass makes the send call and returns from the sender
  when the call returns. A \<open>NotFound\<close>, an \<open>HTTPException\<close> or any other \<open>Exception\<close> is
  logged, \<open>attempt\<close> is incremented and the sender sleeps 0.5 before the next test of the
  loop condition; an exception that is not an \<open>Exception\<close> leaves the sender. The result
  is what was done, and \<open>None\<close> when the sender returns or \<open>Some e\<close> when \<open>e\<close> escapes it.
\<close>

function send_attempts :: "interaction \<Rightarrow> payload \<Rightarrow> nat \<Rightarrow> ui_event list \<times> exn option" where
  "send_attempts i p attempt =
     (if attempt < 3 then
        (case delivery i attempt of
           Delivered \<Rightarrow> ([send_call i p attempt], None)
         | Raises e \<Rightarrow>
             if e = NotFound \<or> e = HTTPException then
               prepend [send_call i p attempt, Log_warning_attempt (attempt + 1) e, Sleep 0.5]
                 (send_attempts i p (attempt + 1))
             else if isinstance_Exception e then
               prepend [send_call i p attempt, Log_error_unexpected e, Sleep 0.5]
                 (send_attempts i p (attempt + 1))
             else ([send_call i p attempt], Some e))
      else ([Log_error_exhausted attempt], None))"
  by pat_completeness auto
termination
  by (relation "measure (\<lambda>(i, p, attempt). 3 - attempt)") auto

declare send_attempts.simps [simp del]

text \<open>
  \<open>SysMsg.msg(interaction, header, message, thumbnail, ephemeral=...)\<close>. \<open>file_opens t\<close>
  says whether \<open>discord.File(t, ...)\<close> returns; when it raises, the error is logged and
  the message goes out without file and thumbnail.
\<close>

definition SysMsg_msg ::
  "(string \<Rightarrow> bool) \<Rightarrow> interaction option \<Rightarrow> string \<Rightarrow> string option \<Rightarrow> string option \<Rightarrow> bool
     \<Rightarrow> ui_event list \<times> exn option" where
  "SysMsg_msg file_opens interaction header message thumbnail eph =
     (case interaction of
        None \<Rightarrow> ([Log_warning_invalid], None)
      | Some i \<Rightarrow>
          if guild i = None then ([Log_warning_invalid], None)
          else
            (let message' =
                   (case message of
                      None \<Rightarrow> None
                    | Some m \<Rightarrow> if length m > 4096 then Some (take 4093 m @ ''...'') else Some m)
             in case thumbnail of
                  None \<Rightarrow>
                    send_attempts i
                      \<lparr>attached_file = None, embed_title = header, embed_description = message',
                       embed_thumbnail = False, ephemeral = eph\<rparr> 0
                | Some t \<Rightarrow>
                    if file_opens t then
                      send_attempts i
                        \<lparr>attached_file = Some t, embed_title = header, embed_description = message',
                         embed_thumbnail = True, ephemeral = eph\<rparr> 0
                    else
                      prepend [Log_error_thumbnail]
                        (send_attempts i
                           \<lparr>attached_file = None, embed_title = header, embed_description = message',
                            embed_thumbnail = False, ephemeral = eph\<rparr> 0)))"

text \<open>\<open>ErrMsg.msg(interaction, message)\<close>: title "Error", always ephemeral, no file.\<close>

definition ErrMsg_msg :: "interaction option \<Rightarrow> string \<Rightarrow> ui_event list \<times> exn option" where
  "ErrMsg_msg interaction message =
     (case interaction of
        None \<Rightarrow> ([Log_warning_invalid], None)
      | Some i \<Rightarrow>
          if guild i = None then ([Log_warning_invalid], None)
          else
            send_attempts i
              \<lparr>attached_file = None, embed_title = ''Error'', embed_description = Some message,
               embed_thumbnail = False, ephemeral = True\<rparr> 0)"

text \<open>Reading a sender's events: the delivery attempts and the delays.\<close>

fun is_attempt :: "ui_event \<Rightarrow> bool" where
  "is_attempt (Followup_send p) = True"
| "is_attempt (Response_send_message p) = True"
| "is_attempt _ = False"

definition attempts :: "ui_event list \<Rightarrow> nat" where
  "attempts evs = length (filter is_attempt evs)"

fun delays :: "ui_event list \<Rightarrow> real list" where
  "delays [] = []"
| "delays (Sleep d # evs) = d # delays evs"
| "delays (ev # evs) = delays evs"

text \<open>The error logged after the loop is among the events.\<close>

fun logs_exhausted :: "ui_event list \<Rightarrow> bool" where
  "logs_exhausted [] = False"
| "logs_exhausted (Log_error_exhausted n # evs) = True"
| "logs_exhausted (ev # evs) = logs_exhausted evs"

text \<open>An outcome of a delivery attempt proper: the call returns or raises an
  \<open>Exception\<close>.\<close>

fun delivery_outcome :: "outcome \<Rightarrow> bool" where
  "delivery_outcome Delivered = True"
| "delivery_outcome (Raises e) = isinstance_Exception e"

text \<open>A failed delivery attempt: the call raises an \<open>Exception\<close>, which one of the three
  clauses catches.\<close>

fun failure :: "outcome \<Rightarrow> bool" where
  "failure Delivered = False"
| "failure (Raises e) = isinstance_Exception e"

text \<open>The logger call of the clause that catches \<open>e\<close> in the pass with \<open>attempt = n\<close>.\<close>

definition failure_log :: "nat \<Rightarrow> exn \<Rightarrow> ui_event" where
  "failure_log n e =
     (if e = NotFound \<or> e = HTTPException then Log_warning_attempt (n + 1) e
      else Log_error_unexpected e)"

section \<open>extensions/music.py\<close>

subsection \<open>The guild's state\<close>

text \<open>
  The modules \<open>data\<close> and \<open>player\<close> are not among these sources. The handlers use this much
  of them: \<open>data.guild_data(guild_id).player\<close> is the guild's player object, with a list
  \<open>queue\<close> and an attribute \<open>current_song\<close> that is a song or \<open>None\<close>;
  \<open>data.guild_properties(guild_id).autoplay_mode\<close> is a member of \<open>data.AutoplayMode\<close>;
  the methods \<open>play_audio_queue\<close> and \<open>skip_track\<close> of the player are parameters of the
  handlers that call them. An entry of the queue is \<open>Some\<close> song, or \<open>None\<close> for Python's
  \<open>None\<close>, which \<open>list.insert\<close> stores like any other object.
\<close>

record Player =
  queue :: "Song option list"
  current_song :: "Song option"

datatype AutoplayMode = NONE | RANDOM | SIMILAR

text \<open>An album as the \<open>play\<close> handler reads it: its attribute \<open>songs\<close>. The class is
  not among these sources; the handler reads no other attribute of it.\<close>

record Album =
  songs :: "Song list"

text \<open>The \<open>discord.VoiceClient\<close> of the guild: \<open>is_playing()\<close> is all the handlers ask
  of it.\<close>

record VoiceClient =
  is_playing :: bool

text \<open>
  A call into \<open>ui\<close> made (and awaited) by a handler: \<open>ErrMsg text\<close> is
  \<open>ui.ErrMsg.msg(interaction, text)\<close>, \<open>SysMsg header message\<close> is
  \<open>ui.SysMsg.msg(interaction, header, message)\<close>; the two album and track notices take
  the object they describe. How a notice is delivered is \<open>ErrMsg_msg\<close> and \<open>SysMsg_msg\<close>
  above.
\<close>

datatype notice =
    ErrMsg string
  | SysMsg string "string option"
  | SysMsg_added_to_queue Song
  | SysMsg_added_album_to_queue "Album"

text \<open>The one-line wrappers of \<open>ui.ErrMsg\<close> and \<open>ui.SysMsg\<close> the handlers call.\<close>

definition user_not_in_voice_channel :: notice where
  "user_not_in_voice_channel = ErrMsg ''You are not connected to a voice channel.''"

definition bot_not_in_voice_channel :: notice where
  "bot_not_in_voice_channel = ErrMsg ''Not currently connected to a voice channel.''"

definition cannot_connect_to_voice_channel :: notice where
  "cannot_connect_to_voice_channel = ErrMsg ''Cannot connect to voice channel.''"

definition queue_is_empty :: notice where
  "queue_is_empty = ErrMsg ''Queue is empty.''"

definition already_playing :: notice where
  "already_playing = ErrMsg ''Already playing.''"

definition not_playing :: notice where
  "not_playing = ErrMsg ''No track is playing.''"

definition starting_queue_playback :: notice where
  "starting_queue_playback = SysMsg ''Started queue playback'' None"

definition stopping_queue_playback :: notice where
  "stopping_queue_playback = SysMsg ''Stopped queue playback'' None"

text \<open>
  What a handler does to the outside, in order: the notices it sends, its calls on the
  voice client, its logger calls and its sleep. \<open>Unawaited n\<close> is a call of a sender whose
  coroutine is dropped without \<open>await\<close>: the notice is not sent. \<open>Autoplay_expansion\<close> and
  \<open>Voice_play\<close> belong to the player's methods.
\<close>

datatype effect =
    Notice notice
  | Unawaited notice
  | Voice_connect
  | Voice_stop
  | Voice_disconnect
  | Voice_play "Song option"
  | Autoplay_expansion AutoplayMode
  | Log_debug_alone
  | Wait real
  | Log_info_disconnected
  | Log_debug_aborting

text \<open>
  The state a handler runs in: the guild's player, the guild's voice client as
  \<open>discord.utils.get(self.bot.voice_clients, guild=...)\<close> finds it (\<open>None\<close> when the bot
  is not connected), and the effects so far.
\<close>

record world =
  player :: Player
  voice_client :: "VoiceClient option"
  out :: "effect list"

definition emit :: "effect \<Rightarrow> world \<Rightarrow> world" where
  "emit ev w = w\<lparr>out := out w @ [ev]\<rparr>"

text \<open>A handler's result: the state it leaves, and \<open>None\<close> when it returns or \<open>Some e\<close>
  when the exception \<open>e\<close> leaves it.\<close>

type_synonym result = "world \<times> exn option"

subsection \<open>get_voice_client\<close>

text \<open>What \<open>interaction.user.voice.channel.connect()\<close> does: it returns a new voice client,
  or an exception is raised (\<open>AttributeError\<close> when \<open>channel\<close> is \<open>None\<close>).\<close>

datatype connect_result = Connects | Connect_raises exn

text \<open>
  \<open>get_voice_client(interaction, should_connect=...)\<close>. \<open>user_voice\<close> is
  \<open>interaction.user.voice\<close>: \<open>None\<close>, or what connecting to its channel does. The voice
  client returned is the \<open>voice_client\<close> of the state returned. An \<open>AttributeError\<close> is
  caught and reported, and \<open>None\<close> is returned; another exception leaves the method.
\<close>

definition get_voice_client :: "connect_result option \<Rightarrow> bool \<Rightarrow> world \<Rightarrow> result" where
  "get_voice_client user_voice should_connect w =
     (if voice_client w = None \<and> should_connect then
        (case user_voice of
           None \<Rightarrow> (emit (Notice cannot_connect_to_voice_channel) w, None)
         | Some Connects \<Rightarrow>
             (emit Voice_connect (w\<lparr>voice_client := Some \<lparr>is_playing = False\<rparr>\<rparr>), None)
         | Some (Connect_raises e) \<Rightarrow>
             if e = AttributeError then (emit (Notice cannot_connect_to_voice_channel) w, None)
             else (w, Some e))
      else (w, None))"

subsection \<open>play\<close>

text \<open>\<open>for song in album.songs: player.queue.append(song)\<close>\<close>

fun append_all :: "Song list \<Rightarrow> Song option list \<Rightarrow> Song option list" where
  "append_all [] q = q"
| "append_all (song # rest) q = append_all rest (q @ [Some song])"

text \<open>
  The \<open>play\<close> handler. \<open>play_audio_queue\<close> is the player's method, called with the voice
  client; \<open>srv\<close> is the catalog service behind \<open>subsonic.search\<close>; \<open>search_album\<close> is
  \<open>subsonic.search_album\<close>, which is not among these sources: it gives an album, \<open>None\<close>,
  or an exception. \<open>voice_client.is_playing()\<close> on \<open>None\<close> raises \<open>AttributeError\<close>. An
  exception of a call that is not caught leaves the handler with the state as it is then.
  A call into \<open>ui\<close> is recorded as the notice it is asked to send and taken to return;
  what the two senders of the added track and album do before sending is not modelled.
\<close>

definition play ::
  "(VoiceClient \<Rightarrow> world \<Rightarrow> result) \<Rightarrow> server \<Rightarrow> (string \<Rightarrow> exn + Album option)
     \<Rightarrow> connect_result option \<Rightarrow> AutoplayMode \<Rightarrow> string option \<Rightarrow> string option
     \<Rightarrow> world \<Rightarrow> result" where
  "play play_audio_queue srv search_album user_voice autoplay_mode querytype query w =
     (if user_voice = None then (emit (Notice user_not_in_voice_channel) w, None)
      else
        (case get_voice_client user_voice True w of
           (w1, Some e) \<Rightarrow> (w1, Some e)
         | (w1, None) \<Rightarrow>
            (case voice_client w1 of
               None \<Rightarrow> (w1, Some AttributeError)
             | Some vc \<Rightarrow>
                if is_playing vc \<and> query = None then (emit (Notice already_playing) w1, None)
                else
                  (case query of
                     None \<Rightarrow>
                       if queue (player w1) = [] \<and> autoplay_mode = NONE
                       then (emit (Notice queue_is_empty) w1, None)
                       else play_audio_queue vc (emit (Notice starting_queue_playback) w1)
                   | Some q \<Rightarrow>
                      (case querytype of
                         None \<Rightarrow> (emit (Notice (ErrMsg ''Please provide a query type.'')) w1, None)
                       | Some qt \<Rightarrow>
                          if qt = ''track'' then
                            (case search srv q 0 0 0 0 1 0 of
                               Inl e \<Rightarrow> (w1, Some e)
                             | Inr found \<Rightarrow>
                                 if length found = 0 then
                                   (emit (Notice (ErrMsg (''No track found for **'' @ q @ ''**.''))) w1,
                                    None)
                                 else
                                   play_audio_queue vc
                                     (emit (Notice (SysMsg_added_to_queue (hd found)))
                                        (w1\<lparr>player := (player w1)
                                              \<lparr>queue := queue (player w1) @ [Some (hd found)]\<rparr>\<rparr>)))
                          else if qt = ''album'' then
                            (case search_album q of
                               Inl e \<Rightarrow> (w1, Some e)
                             | Inr None \<Rightarrow>
                                 (emit (Notice (ErrMsg (''No album found for **'' @ q @ ''**.''))) w1,
                                  None)
                             | Inr (Some album_found) \<Rightarrow>
                                 play_audio_queue vc
                                   (emit (Notice (SysMsg_added_album_to_queue album_found))
                                      (w1\<lparr>player := (player w1)
                                            \<lparr>queue := append_all (songs album_found) (queue (player w1))\<rparr>\<rparr>)))
                          else play_audio_queue vc w1)))))"

subsection \<open>stop\<close>

text \<open>
  The \<open>stop\<close> handler. Under \<open>if player.current_song is None:\<close> the call
  \<open>ui.ErrMsg.not_playing(interaction)\<close> is not awaited: it builds a coroutine that never
  runs, so nothing is sent (the effect \<open>Unawaited\<close> records the call), and no \<open>return\<close>
  follows: the handler goes on with the lines below the test.
  \<open>player.queue.insert(0, player.current_song)\<close> puts the value of \<open>current_song\<close>, a song
  or \<open>None\<close>, in front.
\<close>

definition stop :: "world \<Rightarrow> result" where
  "stop w =
     (let w0 = (if current_song (player w) = None then emit (Unawaited not_playing) w else w)
      in case voice_client w0 of
           None \<Rightarrow> (emit (Notice bot_not_in_voice_channel) w0, None)
         | Some vc \<Rightarrow>
             (let w1 = emit Voice_stop (w0\<lparr>voice_client := Some (vc\<lparr>is_playing := False\<rparr>)\<rparr>);
                  w2 = w1\<lparr>player := (player w1)
                             \<lparr>queue := current_song (player w1) # queue (player w1)\<rparr>\<rparr>;
                  w3 = w2\<lparr>player := (player w2)\<lparr>current_song := None\<rparr>\<rparr>
              in (emit (Notice stopping_queue_playback) w3, None)))"

subsection \<open>skip\<close>

text \<open>The \<open>skip\<close> handler; \<open>skip_track\<close> is the player's method.\<close>

definition skip :: "(VoiceClient \<Rightarrow> world \<Rightarrow> result) \<Rightarrow> world \<Rightarrow> result" where
  "skip skip_track w =
     (case voice_client w of
        None \<Rightarrow> (emit (Notice bot_not_in_voice_channel) w, None)
      | Some vc \<Rightarrow>
          if \<not> is_playing vc then (emit (Notice not_playing) w, None)
          else skip_track vc w)"

subsection \<open>on_voice_state_update\<close>

text \<open>
  The listener. \<open>members_before\<close> and \<open>members_after\<close> are
  \<open>len(voice_client.channel.members)\<close> as read before and after \<open>await sleep(10)\<close>;
  \<open>during_sleep\<close> is what the other handlers do to the guild's state while this one
  sleeps. The voice client tested and disconnected is the one found on entry.
\<close>

definition on_voice_state_update :: "(world \<Rightarrow> world) \<Rightarrow> nat \<Rightarrow> nat \<Rightarrow> world \<Rightarrow> world" where
  "on_voice_state_update during_sleep members_before members_after w =
     (case voice_client w of
        None \<Rightarrow> w
      | Some vc \<Rightarrow>
          if members_before = 1 then
            (let w1 = during_sleep (emit (Wait 10) (emit Log_debug_alone w)) in
             if members_after = 1 then
               (let w2 = emit Voice_disconnect (w1\<lparr>voice_client := None\<rparr>);
                    w3 = w2\<lparr>player := (player w2)\<lparr>queue := []\<rparr>\<rparr>;
                    w4 = w3\<lparr>player := (player w3)\<lparr>current_song := None\<rparr>\<rparr>
                in emit Log_info_disconnected w4)
             else emit Log_debug_aborting w1)
          else w)"

section \<open>The player's methods, from the specification\<close>

text \<open>
  Modelled from the spec: the method \<open>play_audio_queue\<close> of the player (module \<open>player\<close>)
  is missing from the sources; this is \<open>startQueuePlayback\<close> of section 4.3 with the
  expansion policy of section 4.3.1. If a track is already streaming, nothing happens.
  Otherwise, if the queue is empty and the mode is not \<open>NONE\<close>, autoplay expansion is
  invoked first and appends the tracks \<open>expansion mode\<close> that the catalog returns for the
  mode; then the front of the queue is popped into \<open>current_song\<close> and the voice
  connection is told to stream it (\<open>Voice_play\<close> of the entry popped); with nothing to
  play, "queue empty" is reported without error.
\<close>

definition startQueuePlayback ::
  "(AutoplayMode \<Rightarrow> Song list) \<Rightarrow> AutoplayMode \<Rightarrow> VoiceClient \<Rightarrow> world \<Rightarrow> result" where
  "startQueuePlayback expansion autoplay_mode vc w =
     (if is_playing vc then (w, None)
      else
        (let w1 = (if queue (player w) = [] \<and> autoplay_mode \<noteq> NONE
                   then emit (Autoplay_expansion autoplay_mode)
                          (w\<lparr>player := (player w)
                               \<lparr>queue := queue (player w) @ map Some (expansion autoplay_mode)\<rparr>\<rparr>)
                   else w)
         in case queue (player w1) of
              [] \<Rightarrow> (emit (Notice queue_is_empty) w1, None)
            | t # rest \<Rightarrow>
                (emit (Voice_play t)
                   (w1\<lparr>player := \<lparr>queue = rest, current_song = t\<rparr>,
                       voice_client := Some (vc\<lparr>is_playing := True\<rparr>)\<rparr>),
                 None)))"

text \<open>
  Modelled from the spec: the method \<open>skip_track\<close> of the player (module \<open>player\<close>) is
  missing from the sources; this is \<open>skip\<close> of section 4.3: it halts active streaming,
  discards \<open>current_track\<close> without requeueing it, then calls \<open>startQueuePlayback\<close>.
\<close>

definition skip_track ::
  "(AutoplayMode \<Rightarrow> Song list) \<Rightarrow> AutoplayMode \<Rightarrow> VoiceClient \<Rightarrow> world \<Rightarrow> result" where
  "skip_track expansion autoplay_mode vc w =
     startQueuePlayback expansion autoplay_mode (vc\<lparr>is_playing := False\<rparr>)
       (emit Voice_stop
          (w\<lparr>voice_client := Some (vc\<lparr>is_playing := False\<rparr>),
             player := (player w)\<lparr>current_song := None\<rparr>\<rparr>))"

section \<open>Conditions on a handler's start state\<close>

text \<open>The user is in a voice channel, and the bot has a voice client for the guild or
  connecting to the user's channel gives one: \<open>play\<close> gets past its first lines.\<close>

definition voice_available :: "connect_result option \<Rightarrow> world \<Rightarrow> bool" where
  "voice_available user_voice w =
     (user_voice \<noteq> None \<and> (voice_client w \<noteq> None \<or> user_voice = Some Connects))"

text \<open>The guild's voice client, if there is one, is not playing.\<close>

definition idle :: "world \<Rightarrow> bool" where
  "idle w = (case voice_client w of None \<Rightarrow> True | Some vc \<Rightarrow> \<not> is_playing vc)"

text \<open>The state after a call \<open>get_voice_client(interaction, should_connect=True)\<close> that
  found the guild's voice client or connected a new one.\<close>

definition connected :: "world \<Rightarrow> world" where
  "connected w =
     (if voice_client w = None
      then emit Voice_connect (w\<lparr>voice_client := Some \<lparr>is_playing = False\<rparr>\<rparr>)
      else w)"

text \<open>The effects a handler added to those of the state it started in.\<close>

definition new_effects :: "world \<Rightarrow> world \<Rightarrow> effect list" where
  "new_effects w w' = drop (length (out w)) (out w')"

section \<open>Concrete inputs\<close>

text \<open>An interaction whose first two delivery attempts fail with \<open>NotFound\<close> and whose
  third succeeds, and one on which every attempt fails with an \<open>HTTPException\<close>.\<close>

definition flaky :: interaction where
  "flaky = \<lparr>guild = Some 1, is_done = (\<lambda>n. False),
            delivery = (\<lambda>n. if n < 2 then Raises NotFound else Delivered)\<rparr>"

definition dead :: interaction where
  "dead = \<lparr>guild = Some 1, is_done = (\<lambda>n. True), delivery = (\<lambda>n. Raises HTTPException)\<rparr>"

text \<open>A reply of the search endpoint with an empty song list.\<close>

definition empty_reply :: json where
  "empty_reply =
     JObj [(''subsonic-response'', JObj [(''searchResult3'', JObj [(''song'', JList [])])])]"

text \<open>Two songs, an album of both, and four guild states: nothing playing and nothing
  queued with the bot connected; \<open>song_a\<close> playing with \<open>song_b\<close> queued; \<open>song_a\<close> playing
  with nothing queued; \<open>song_b\<close> queued with the bot not connected.\<close>

definition song_a :: Song where
  "song_a = \<lparr>song_id = JStr ''1'', title = JStr ''One'', album = JStr ''X'', artist = JStr ''Y'',
             duration = JInt 60\<rparr>"

definition song_b :: Song where
  "song_b = \<lparr>song_id = JStr ''2'', title = JStr ''Two'', album = JStr ''X'', artist = JStr ''Y'',
             duration = JInt 90\<rparr>"

definition album_ab :: Album where
  "album_ab = \<lparr>songs = [song_a, song_b]\<rparr>"

definition silent :: world where
  "silent = \<lparr>player = \<lparr>queue = [], current_song = None\<rparr>,
             voice_client = Some \<lparr>is_playing = False\<rparr>, out = []\<rparr>"

definition playing_a :: world where
  "playing_a = \<lparr>player = \<lparr>queue = [Some song_b], current_song = Some song_a\<rparr>,
                voice_client = Some \<lparr>is_playing = True\<rparr>, out = []\<rparr>"

definition playing_only_a :: world where
  "playing_only_a = \<lparr>player = \<lparr>queue = [], current_song = Some song_a\<rparr>,
                     voice_client = Some \<lparr>is_playing = True\<rparr>, out = []\<rparr>"

definition queued_b :: world where
  "queued_b = \<lparr>player = \<lparr>queue = [Some song_b], current_song = None\<rparr>,
               voice_client = None, out = []\<rparr>"

section \<open>Properties of subsonic.py\<close>

text \<open>
  C2. A \<open>Song\<close> built from a catalog record does not carry the record's \<open>artist\<close> and
  \<open>album\<close> under the properties of those names: the record with title T, artist A, album
  B and duration 5 gives a song whose \<open>album\<close> is A and whose \<open>artist\<close> is B, and the
  empty record gives a song whose \<open>album\<close> is "Unknown Artist" and whose \<open>artist\<close> is
  "Unknown Album". Title and duration are the record's, and default to "Unknown Track"
  and 0.
\<close>

theorem Song_init_swaps_album_and_artist:
  "Song_init (JObj [(''title'', JStr ''T''), (''artist'', JStr ''A''),
                    (''album'', JStr ''B''), (''duration'', JInt 5)])
     = Inr \<lparr>song_id = JStr [], title = JStr ''T'', album = JStr ''A'', artist = JStr ''B'',
            duration = JInt 5\<rparr>
   \<and> Song_init (JObj [])
     = Inr \<lparr>song_id = JStr [], title = JStr ''Unknown Track'', album = JStr ''Unknown Artist'',
            artist = JStr ''Unknown Album'', duration = JInt 0\<rparr>"
  by (simp add: Song_init_def field_or_def)

text \<open>
  C3. When the reply's result object carries no \<open>song\<close> key, \<open>search\<close>,
  \<open>get_random_songs\<close> and \<open>get_similar_songs\<close> do not return the empty list: each raises
  \<open>KeyError\<close>, whatever the arguments of the request.
\<close>

theorem absent_song_list_raises_KeyError:
  "search (\<lambda>r. Inr (no_match_reply ''searchResult3'')) query artist_count artist_offset
      album_count album_offset song_count song_offset = Inl KeyError
   \<and> get_random_songs (\<lambda>r. Inr (no_match_reply ''randomSongs'')) size_opt genre from_year
      to_year music_folder_id = Inl KeyError
   \<and> get_similar_songs (\<lambda>r. Inr (no_match_reply ''similarSongs2'')) ident count = Inl KeyError"
  by (simp add: search_def get_random_songs_def get_similar_songs_def songs_of_response_def
        no_match_reply_def)

section \<open>Properties of ui.py\<close>

subsection \<open>The retry loop\<close>

lemma fst_prepend: "fst (prepend evs r) = evs @ fst r"
  by (simp add: prepend_def)

lemma snd_prepend: "snd (prepend evs r) = snd r"
  by (simp add: prepend_def)

lemma attempts_Cons:
  "attempts (ev # evs) = (if is_attempt ev then Suc (attempts evs) else attempts evs)"
  by (simp add: attempts_def)

lemma attempts_Nil: "attempts [] = 0"
  by (simp add: attempts_def)

lemma is_attempt_send_call: "is_attempt (send_call i p n)"
  by (simp add: send_call_def)

lemma delays_send_call: "delays (send_call i p n # evs) = delays evs"
  by (simp add: send_call_def)

lemma logs_exhausted_send_call: "logs_exhausted (send_call i p n # evs) = logs_exhausted evs"
  by (simp add: send_call_def)

lemma failure_log_plain:
  "\<not> is_attempt (failure_log n e)"
  "delays (failure_log n e # evs) = delays evs"
  "logs_exhausted (failure_log n e # evs) = logs_exhausted evs"
  by (simp_all add: failure_log_def)

lemma send_attempts_exhausted: "3 \<le> n \<Longrightarrow> send_attempts i p n = ([Log_error_exhausted n], None)"
  by (subst send_attempts.simps) simp

lemma send_attempts_delivered:
  "n < 3 \<Longrightarrow> delivery i n = Delivered \<Longrightarrow> send_attempts i p n = ([send_call i p n], None)"
  by (subst send_attempts.simps) simp

lemma send_attempts_failure:
  "n < 3 \<Longrightarrow> delivery i n = Raises e \<Longrightarrow> isinstance_Exception e \<Longrightarrow>
   send_attempts i p n =
     prepend [send_call i p n, failure_log n e, Sleep 0.5] (send_attempts i p (Suc n))"
  by (subst send_attempts.simps) (simp add: failure_log_def)

lemma send_attempts_escape:
  "n < 3 \<Longrightarrow> delivery i n = Raises e \<Longrightarrow> \<not> isinstance_Exception e \<Longrightarrow>
   send_attempts i p n = ([send_call i p n], Some e)"
  by (subst send_attempts.simps) (cases e; simp)

lemmas ev_simps = fst_prepend snd_prepend attempts_Cons attempts_Nil is_attempt_send_call
  delays_send_call logs_exhausted_send_call failure_log_plain

text \<open>One step of the loop, by the kind of outcome.\<close>

lemma send_attempts_cases:
  assumes "n < 3"
  obtains (delivered) "send_attempts i p n = ([send_call i p n], None)" "delivery i n = Delivered"
  | (failed) e where "delivery i n = Raises e" "isinstance_Exception e"
      "send_attempts i p n =
         prepend [send_call i p n, failure_log n e, Sleep 0.5] (send_attempts i p (Suc n))"
  | (escaped) e where "delivery i n = Raises e" "\<not> isinstance_Exception e"
      "send_attempts i p n = ([send_call i p n], Some e)"
proof (cases "delivery i n")
  case Delivered
  then show ?thesis using assms delivered send_attempts_delivered by blast
next
  case (Raises e)
  then show ?thesis
    using assms failed escaped send_attempts_failure send_attempts_escape by (cases "isinstance_Exception e") blast+
qed

lemma attempts_bound: "attempts (fst (send_attempts i p n)) \<le> 3 - n"
proof (induction "3 - n" arbitrary: n)
  case 0
  then show ?case by (simp add: send_attempts_exhausted ev_simps)
next
  case (Suc k)
  then have lt: "n < 3" and k: "k = 3 - Suc n" by simp_all
  from lt show ?case
  proof (cases rule: send_attempts_cases [of n i p])
    case delivered
    then show ?thesis using lt by (simp add: ev_simps)
  next
    case (failed e)
    then show ?thesis using Suc.hyps(1) [OF k] lt by (simp add: ev_simps)
  next
    case (escaped e)
    then show ?thesis using lt by (simp add: ev_simps)
  qed
qed

lemma delays_fixed:
  "delays (fst (send_attempts i p n)) = replicate (length (delays (fst (send_attempts i p n)))) 0.5"
proof (induction "3 - n" arbitrary: n)
  case 0
  then show ?case by (simp add: send_attempts_exhausted)
next
  case (Suc k)
  then have lt: "n < 3" and k: "k = 3 - Suc n" by simp_all
  from lt show ?case
  proof (cases rule: send_attempts_cases [of n i p])
    case delivered
    then show ?thesis by (simp add: ev_simps)
  next
    case (failed e)
    then show ?thesis using Suc.hyps(1) [OF k] by (simp add: ev_simps)
  next
    case (escaped e)
    then show ?thesis by (simp add: ev_simps)
  qed
qed

lemma attempts_pos: "n < 3 \<Longrightarrow> 0 < attempts (fst (send_attempts i p n))"
  by (cases rule: send_attempts_cases [of n i p]) (simp_all add: ev_simps)

lemma delays_count:
  "n \<le> 3 \<Longrightarrow> length (delays (fst (send_attempts i p n))) =
     (if logs_exhausted (fst (send_attempts i p n)) then 3 - n
      else attempts (fst (send_attempts i p n)) - 1)"
proof (induction "3 - n" arbitrary: n)
  case 0
  then show ?case by (simp add: send_attempts_exhausted ev_simps)
next
  case (Suc k)
  then have lt: "n < 3" and k: "k = 3 - Suc n" by simp_all
  from lt show ?case
  proof (cases rule: send_attempts_cases [of n i p])
    case delivered
    then show ?thesis by (simp add: ev_simps)
  next
    case (failed e)
    have le: "Suc n \<le> 3" using lt by simp
    have pos: "logs_exhausted (fst (send_attempts i p (Suc n)))
                 \<or> 0 < attempts (fst (send_attempts i p (Suc n)))"
      using attempts_pos [of "Suc n" i p] send_attempts_exhausted [of "Suc n" i p]
      by (cases "Suc n < 3") auto
    show ?thesis using Suc.hyps(1) [OF k le] failed lt pos by (auto simp add: ev_simps)
  next
    case (escaped e)
    then show ?thesis by (simp add: ev_simps)
  qed
qed

lemma returns_normally:
  "(\<forall>k<3. delivery_outcome (delivery i k)) \<Longrightarrow> snd (send_attempts i p n) = None"
proof (induction "3 - n" arbitrary: n)
  case 0
  then show ?case by (simp add: send_attempts_exhausted)
next
  case (Suc k)
  then have lt: "n < 3" and k: "k = 3 - Suc n" by simp_all
  from lt show ?case
  proof (cases rule: send_attempts_cases [of n i p])
    case delivered
    then show ?thesis by simp
  next
    case (failed e)
    then show ?thesis using Suc.hyps(1) [OF k Suc.prems] by (simp add: ev_simps)
  next
    case (escaped e)
    then show ?thesis using Suc.prems lt by auto
  qed
qed


lemma two_failures_then_success:
  assumes "failure (delivery i 0)" "failure (delivery i 1)" "delivery i 2 = Delivered"
  shows "\<exists>e0 e1. send_attempts i p 0 =
     ([send_call i p 0, failure_log 0 e0, Sleep 0.5,
       send_call i p 1, failure_log 1 e1, Sleep 0.5,
       send_call i p 2], None)"
proof -
  obtain e0 where e0: "delivery i 0 = Raises e0" "isinstance_Exception e0"
    using assms(1) by (cases "delivery i 0") auto
  obtain e1 where e1: "delivery i 1 = Raises e1" "isinstance_Exception e1"
    using assms(2) by (cases "delivery i 1") auto
  have 2: "send_attempts i p 2 = ([send_call i p 2], None)"
    using assms(3) by (simp add: send_attempts_delivered)
  have 1: "send_attempts i p 1 = prepend [send_call i p 1, failure_log 1 e1, Sleep 0.5] (send_attempts i p 2)"
    using send_attempts_failure [of 1 i e1 p] e1 by (simp add: numeral_2_eq_2)
  have 0: "send_attempts i p 0 = prepend [send_call i p 0, failure_log 0 e0, Sleep 0.5] (send_attempts i p 1)"
    using send_attempts_failure [of 0 i e0 p] e0 by simp
  show ?thesis unfolding 0 1 2 by (auto simp: prepend_def)
qed

lemma three_failures:
  assumes "failure (delivery i 0)" "failure (delivery i 1)" "failure (delivery i 2)"
  shows "\<exists>e0 e1 e2. send_attempts i p 0 =
     ([send_call i p 0, failure_log 0 e0, Sleep 0.5,
       send_call i p 1, failure_log 1 e1, Sleep 0.5,
       send_call i p 2, failure_log 2 e2, Sleep 0.5,
       Log_error_exhausted 3], None)"
proof -
  obtain e0 where e0: "delivery i 0 = Raises e0" "isinstance_Exception e0"
    using assms(1) by (cases "delivery i 0") auto
  obtain e1 where e1: "delivery i 1 = Raises e1" "isinstance_Exception e1"
    using assms(2) by (cases "delivery i 1") auto
  obtain e2 where e2: "delivery i 2 = Raises e2" "isinstance_Exception e2"
    using assms(3) by (cases "delivery i 2") auto
  have 3: "send_attempts i p 3 = ([Log_error_exhausted 3], None)"
    by (simp add: send_attempts_exhausted)
  have 2: "send_attempts i p 2 = prepend [send_call i p 2, failure_log 2 e2, Sleep 0.5] (send_attempts i p 3)"
    using send_attempts_failure [of 2 i e2 p] e2 by (simp add: numeral_3_eq_3 numeral_2_eq_2)
  have 1: "send_attempts i p 1 = prepend [send_call i p 1, failure_log 1 e1, Sleep 0.5] (send_attempts i p 2)"
    using send_attempts_failure [of 1 i e1 p] e1 by (simp add: numeral_2_eq_2)
  have 0: "send_attempts i p 0 = prepend [send_call i p 0, failure_log 0 e0, Sleep 0.5] (send_attempts i p 1)"
    using send_attempts_failure [of 0 i e0 p] e0 by simp
  show ?thesis unfolding 0 1 2 3 by (auto simp: prepend_def)
qed

text \<open>Both senders, on a valid interaction, run the loop from 0, after at most the
  thumbnail error.\<close>

lemma sender_shape:
  assumes "guild i = Some g"
    and "r = SysMsg_msg file_opens (Some i) header message thumbnail eph \<or> r = ErrMsg_msg (Some i) body"
  shows "\<exists>p. r = send_attempts i p 0 \<or> r = prepend [Log_error_thumbnail] (send_attempts i p 0)"
  using assms by (auto simp: SysMsg_msg_def ErrMsg_msg_def Let_def split: option.splits)

lemma sender_reads:
  assumes "r = s \<or> r = prepend [Log_error_thumbnail] s"
  shows "attempts (fst r) = attempts (fst s)" "delays (fst r) = delays (fst s)"
    "logs_exhausted (fst r) = logs_exhausted (fst s)" "snd r = snd s"
    "fst s \<noteq> [] \<Longrightarrow> last (fst r) = last (fst s)"
  using assms by (auto simp: ev_simps)

text \<open>
  C4. On a valid interaction, the system-message sender and the error-message sender
  make at most 3 delivery attempts; every delay is 0.5, and there is one delay after each
  failed attempt (one fewer than the attempts when the sender stops on a send call, 3
  when it gives up). If every attempt returns or raises an \<open>Exception\<close>, the sender
  returns and no exception escapes. After 2 failures and a success it has made 3
  attempts and exactly 2 delays, its last action is the send call that succeeded, and
  it has not logged the final error. After 3 consecutive failures it has made 3 attempts,
  its last action is to log the final error, and it returns.
\<close>

theorem sendMessage_bounded_retry:
  assumes "guild i = Some g"
    and "r = SysMsg_msg file_opens (Some i) header message thumbnail eph
         \<or> r = ErrMsg_msg (Some i) body"
  shows "attempts (fst r) \<le> 3
    \<and> delays (fst r) = replicate (length (delays (fst r))) 0.5
    \<and> length (delays (fst r)) = (if logs_exhausted (fst r) then 3 else attempts (fst r) - 1)
    \<and> (delivery_outcome (delivery i 0) \<and> delivery_outcome (delivery i 1)
         \<and> delivery_outcome (delivery i 2) \<longrightarrow> snd r = None)
    \<and> (failure (delivery i 0) \<and> failure (delivery i 1) \<and> delivery i 2 = Delivered \<longrightarrow>
          snd r = None \<and> attempts (fst r) = 3 \<and> delays (fst r) = [0.5, 0.5]
          \<and> is_attempt (last (fst r)) \<and> \<not> logs_exhausted (fst r))
    \<and> (failure (delivery i 0) \<and> failure (delivery i 1) \<and> failure (delivery i 2) \<longrightarrow>
          snd r = None \<and> attempts (fst r) = 3 \<and> last (fst r) = Log_error_exhausted 3)"
proof -
  obtain p where shape:
    "r = send_attempts i p 0 \<or> r = prepend [Log_error_thumbnail] (send_attempts i p 0)"
    using sender_shape [OF assms] by blast
  let ?s = "send_attempts i p 0"
  note rd = sender_reads [OF shape]
  have a: "attempts (fst r) \<le> 3"
    using attempts_bound [of i p 0] by (simp add: rd)
  have b: "delays (fst r) = replicate (length (delays (fst r))) 0.5"
    using delays_fixed [of i p 0] by (simp add: rd)
  have c: "length (delays (fst r)) = (if logs_exhausted (fst r) then 3 else attempts (fst r) - 1)"
    using delays_count [of 0 i p] by (simp add: rd)
  have d: "delivery_outcome (delivery i 0) \<and> delivery_outcome (delivery i 1)
         \<and> delivery_outcome (delivery i 2) \<longrightarrow> snd r = None"
  proof
    assume h: "delivery_outcome (delivery i 0) \<and> delivery_outcome (delivery i 1)
         \<and> delivery_outcome (delivery i 2)"
    have "\<forall>k<3. delivery_outcome (delivery i k)"
    proof (intro allI impI)
      fix k :: nat
      assume "k < 3"
      then have "k = 0 \<or> k = 1 \<or> k = 2" by arith
      with h show "delivery_outcome (delivery i k)" by auto
    qed
    then show "snd r = None"
      using returns_normally [of i p 0] by (simp add: rd)
  qed
  have e: "snd r = None \<and> attempts (fst r) = 3 \<and> delays (fst r) = [0.5, 0.5]
          \<and> is_attempt (last (fst r)) \<and> \<not> logs_exhausted (fst r)"
    if h: "failure (delivery i 0)" "failure (delivery i 1)" "delivery i 2 = Delivered"
  proof -
    obtain e0 e1 where s: "?s = ([send_call i p 0, failure_log 0 e0, Sleep 0.5,
       send_call i p 1, failure_log 1 e1, Sleep 0.5, send_call i p 2], None)"
      using two_failures_then_success [OF h] by blast
    have ne: "fst ?s \<noteq> []" by (simp add: s)
    show ?thesis by (simp add: rd rd(5) [OF ne] s ev_simps)
  qed
  have f: "snd r = None \<and> attempts (fst r) = 3 \<and> last (fst r) = Log_error_exhausted 3"
    if h: "failure (delivery i 0)" "failure (delivery i 1)" "failure (delivery i 2)"
  proof -
    obtain e0 e1 e2 where s: "?s = ([send_call i p 0, failure_log 0 e0, Sleep 0.5,
       send_call i p 1, failure_log 1 e1, Sleep 0.5,
       send_call i p 2, failure_log 2 e2, Sleep 0.5, Log_error_exhausted 3], None)"
      using three_failures [OF h] by blast
    have ne: "fst ?s \<noteq> []" by (simp add: s)
    show ?thesis by (simp add: rd rd(5) [OF ne] s ev_simps)
  qed
  from a b c d e f show ?thesis by blast
qed

theorem sendMessage_bounded_retry_witness:
  "guild flaky = Some 1
   \<and> failure (delivery flaky 0) \<and> failure (delivery flaky 1) \<and> delivery flaky 2 = Delivered
   \<and> delivery_outcome (delivery flaky 0) \<and> delivery_outcome (delivery flaky 1)
   \<and> delivery_outcome (delivery flaky 2)
   \<and> snd (ErrMsg_msg (Some flaky) ''Queue is empty.'') = None
   \<and> attempts (fst (ErrMsg_msg (Some flaky) ''Queue is empty.'')) = 3
   \<and> delays (fst (ErrMsg_msg (Some flaky) ''Queue is empty.'')) = [0.5, 0.5]
   \<and> guild dead = Some 1
   \<and> failure (delivery dead 0) \<and> failure (delivery dead 1) \<and> failure (delivery dead 2)
   \<and> snd (SysMsg_msg (\<lambda>t. True) (Some dead) ''Queue'' None None False) = None
   \<and> last (fst (SysMsg_msg (\<lambda>t. True) (Some dead) ''Queue'' None None False))
       = Log_error_exhausted 3"
  using sendMessage_bounded_retry [where i = flaky and g = 1
          and r = "ErrMsg_msg (Some flaky) ''Queue is empty.''" and body = "''Queue is empty.''"
          and file_opens = "\<lambda>t. True" and header = "''Queue''" and message = None
          and thumbnail = None and eph = False]
    sendMessage_bounded_retry [where i = dead and g = 1
          and r = "SysMsg_msg (\<lambda>t. True) (Some dead) ''Queue'' None None False"
          and body = "''Queue is empty.''"
          and file_opens = "\<lambda>t. True" and header = "''Queue''" and message = None
          and thumbnail = None and eph = False]
  by (simp add: flaky_def dead_def)

text \<open>
  C10. When the interaction is \<open>None\<close>, or its guild is \<open>None\<close>, the system-message sender
  and the error-message sender log one warning and return: no delivery attempt, no
  delay, no exception.
\<close>

theorem invalid_interaction_sends_nothing:
  "SysMsg_msg file_opens None header message thumbnail eph = ([Log_warning_invalid], None)
   \<and> SysMsg_msg file_opens (Some (i\<lparr>guild := None\<rparr>)) header message thumbnail eph
       = ([Log_warning_invalid], None)
   \<and> ErrMsg_msg None body = ([Log_warning_invalid], None)
   \<and> ErrMsg_msg (Some (i\<lparr>guild := None\<rparr>)) body = ([Log_warning_invalid], None)
   \<and> attempts [Log_warning_invalid] = 0
   \<and> delays [Log_warning_invalid] = []"
  by (simp add: SysMsg_msg_def ErrMsg_msg_def attempts_def)

section \<open>Properties of extensions/music.py\<close>

subsection \<open>Steps shared by the handlers\<close>

lemma append_all_eq: "append_all xs q = q @ map Some xs"
  by (induction xs arbitrary: q) simp_all

lemma get_voice_client_available:
  "voice_available uv w \<Longrightarrow> get_voice_client uv True w = (connected w, None)"
  by (auto simp: voice_available_def get_voice_client_def connected_def)

lemma voice_client_connected:
  "voice_client (connected w) = (case voice_client w of None \<Rightarrow> Some \<lparr>is_playing = False\<rparr> | Some vc \<Rightarrow> Some vc)"
  by (simp add: connected_def emit_def split: option.splits)

lemma player_connected: "player (connected w) = player w"
  by (simp add: connected_def emit_def)

lemma player_emit: "player (emit ev w) = player w"
  by (simp add: emit_def)

lemma get_voice_client_player:
  "player (fst (get_voice_client uv sc w)) = player w"
  by (simp add: get_voice_client_def player_emit split: option.splits connect_result.splits)

lemma play_start_attempt:
  assumes "voice_available uv w" and "idle w" and "voice_client (connected w) = Some vc"
    and "\<not> (queue (player w) = [] \<and> mode = NONE)"
  shows "play paq srv sa uv mode qt None w
         = paq vc (emit (Notice starting_queue_playback) (connected w))"
proof -
  have u: "uv \<noteq> None"
    using assms(1) by (simp add: voice_available_def)
  have g: "get_voice_client uv True w = (connected w, None)"
    using assms(1) by (rule get_voice_client_available)
  have i: "\<not> is_playing vc"
    using assms(2,3) by (cases "voice_client w") (auto simp: voice_client_connected idle_def)
  show ?thesis
    using assms(4) by (auto simp: play_def u g assms(3) i player_connected)
qed

lemma startQueuePlayback_expansion:
  "\<not> is_playing vc \<Longrightarrow>
   (\<exists>m. Autoplay_expansion m \<in> set (new_effects w (fst (startQueuePlayback expansion mode vc w))))
     = (queue (player w) = [] \<and> mode \<noteq> NONE)"
  by (cases "expansion mode"; cases "queue (player w)")
     (auto simp: startQueuePlayback_def emit_def Let_def new_effects_def)

lemma play_no_query_independent:
  assumes "queue (player w) = []"
  shows "play paq srv sa uv NONE qt None w = play paq' srv sa uv NONE qt None w"
proof -
  obtain w1 e where g: "get_voice_client uv True w = (w1, e)"
    by (cases "get_voice_client uv True w")
  have p1: "player w1 = player w"
    using get_voice_client_player [of uv True w] g by simp
  have q1: "queue (player w1) = []"
    using p1 assms by simp
  show ?thesis
    by (simp add: play_def g q1 split: option.splits)
qed

lemma play_no_query_player:
  assumes "queue (player w) = []"
  shows "player (fst (play paq srv sa uv NONE qt None w)) = player w"
proof -
  obtain w1 e where g: "get_voice_client uv True w = (w1, e)"
    by (cases "get_voice_client uv True w")
  have p1: "player w1 = player w"
    using get_voice_client_player [of uv True w] g by simp
  have q1: "queue (player w1) = []"
    using p1 assms by simp
  show ?thesis
    using assms by (simp add: play_def g p1 player_emit split: option.splits)
qed

lemma play_no_query_reports:
  assumes "queue (player w) = []" and "voice_available uv w" and "idle w"
  shows "play paq srv sa uv NONE qt None w = (emit (Notice queue_is_empty) (connected w), None)"
proof -
  have u: "uv \<noteq> None"
    using assms(2) by (simp add: voice_available_def)
  have g: "get_voice_client uv True w = (connected w, None)"
    using assms(2) by (rule get_voice_client_available)
  have q1: "queue (player (connected w)) = []"
    using assms(1) by (simp add: player_connected)
  have "\<exists>vc. voice_client (connected w) = Some vc \<and> \<not> is_playing vc"
    using assms(3) by (cases "voice_client w") (simp_all add: voice_client_connected idle_def)
  then obtain vc where v: "voice_client (connected w) = Some vc" and i: "\<not> is_playing vc"
    by blast
  show ?thesis
    by (simp add: play_def u g q1 v i)
qed

lemma play_track_not_found_player:
  assumes "search srv q 0 0 0 0 1 0 = Inr []"
  shows "player (fst (play paq srv sa uv mode (Some ''track'') (Some q) w)) = player w"
proof -
  obtain w1 e where g: "get_voice_client uv True w = (w1, e)"
    by (cases "get_voice_client uv True w")
  have p1: "player w1 = player w"
    using get_voice_client_player [of uv True w] g by simp
  show ?thesis
    using assms by (simp add: play_def g p1 player_emit split: option.splits)
qed

lemma play_track_not_found_independent:
  assumes "search srv q 0 0 0 0 1 0 = Inr []"
  shows "play paq srv sa uv mode (Some ''track'') (Some q) w
         = play paq' srv sa uv mode (Some ''track'') (Some q) w"
  using assms by (simp add: play_def split: option.splits prod.splits)

lemma play_track_not_found_reports:
  assumes "search srv q 0 0 0 0 1 0 = Inr []" and "voice_available uv w"
  shows "play paq srv sa uv mode (Some ''track'') (Some q) w
         = (emit (Notice (ErrMsg (''No track found for **'' @ q @ ''**.''))) (connected w), None)"
proof -
  have u: "uv \<noteq> None"
    using assms(2) by (simp add: voice_available_def)
  have g: "get_voice_client uv True w = (connected w, None)"
    using assms(2) by (rule get_voice_client_available)
  obtain vc where v: "voice_client (connected w) = Some vc"
    by (cases "voice_client w") (simp_all add: voice_client_connected)
  show ?thesis
    using assms(1) by (simp add: play_def u g v)
qed

subsection \<open>stop\<close>

text \<open>
  C1. With no track playing, the \<open>stop\<close> handler does not abort and does not leave the
  playback state as it was: on a guild whose queue is empty and whose \<open>current_song\<close> is
  \<open>None\<close>, with the bot connected, it stops the voice client, puts \<open>None\<close> in front of the
  queue and sends "Stopped queue playback"; "No track is playing." is not sent.
\<close>

theorem stop_without_track_changes_queue:
  "stop silent =
     (\<lparr>player = \<lparr>queue = [None], current_song = None\<rparr>,
       voice_client = Some \<lparr>is_playing = False\<rparr>,
       out = [Unawaited not_playing, Voice_stop, Notice stopping_queue_playback]\<rparr>, None)
   \<and> queue (player (fst (stop silent))) \<noteq> queue (player silent)"
  by (simp add: stop_def silent_def emit_def Let_def)

text \<open>The \<open>skip\<close> handler on a playing voice client, with the player's \<open>skip_track\<close>:
  its result in each case of the queue and of what autoplay offers.\<close>

lemma skip_next_in_queue:
  assumes "voice_client w = Some vc" and "is_playing vc" and "queue (player w) = x # rest"
  shows "skip (skip_track expansion mode) w =
     (w\<lparr>voice_client := Some (vc\<lparr>is_playing := True\<rparr>),
        player := \<lparr>queue = rest, current_song = x\<rparr>,
        out := out w @ [Voice_stop, Voice_play x]\<rparr>, None)"
  using assms by (simp add: skip_def skip_track_def startQueuePlayback_def emit_def Let_def)

lemma skip_nothing_left:
  assumes "voice_client w = Some vc" and "is_playing vc" and "queue (player w) = []"
    and "mode = NONE \<or> expansion mode = []"
  shows "skip (skip_track expansion mode) w =
     (w\<lparr>voice_client := Some (vc\<lparr>is_playing := False\<rparr>),
        player := \<lparr>queue = [], current_song = None\<rparr>,
        out := out w @ [Voice_stop]
                 @ (if mode = NONE then [] else [Autoplay_expansion mode])
                 @ [Notice queue_is_empty]\<rparr>, None)"
  using assms by (auto simp: skip_def skip_track_def startQueuePlayback_def emit_def Let_def)

lemma skip_autoplay:
  assumes "voice_client w = Some vc" and "is_playing vc" and "queue (player w) = []"
    and "mode \<noteq> NONE" and "expansion mode = y # ys"
  shows "skip (skip_track expansion mode) w =
     (w\<lparr>voice_client := Some (vc\<lparr>is_playing := True\<rparr>),
        player := \<lparr>queue = map Some ys, current_song = Some y\<rparr>,
        out := out w @ [Voice_stop, Autoplay_expansion mode, Voice_play (Some y)]\<rparr>, None)"
  using assms by (simp add: skip_def skip_track_def startQueuePlayback_def emit_def Let_def)

text \<open>
  C5. In a guild state where track \<open>t\<close> is the current song and the bot holds a voice
  client, \<open>stop\<close> halts streaming, puts \<open>t\<close> in front of the queue and clears
  \<open>current_song\<close>. A \<open>startQueuePlayback\<close> right after it makes \<open>t\<close> the current song
  again, streams it, and leaves the queue as it was before \<open>stop\<close>. When the voice client
  is playing, \<open>skip\<close> halts streaming and drops \<open>t\<close> without putting it back: with \<open>x\<close>
  in front of the queue, \<open>x\<close> becomes the current song and is streamed, and the queue is
  the rest; with an empty queue and nothing from autoplay, the queue stays empty,
  \<open>current_song\<close> is \<open>None\<close> and "queue empty" is reported; with an empty queue and
  tracks \<open>y\<close>, \<open>ys\<close> from autoplay, \<open>y\<close> becomes the current song and \<open>ys\<close> the queue.
\<close>

theorem stop_requeues_current_track:
  assumes "voice_client w = Some vc" and "current_song (player w) = Some t"
  shows "stop w =
      (w\<lparr>voice_client := Some (vc\<lparr>is_playing := False\<rparr>),
         player := \<lparr>queue = Some t # queue (player w), current_song = None\<rparr>,
         out := out w @ [Voice_stop, Notice stopping_queue_playback]\<rparr>, None)
    \<and> (let r = startQueuePlayback expansion mode (vc\<lparr>is_playing := False\<rparr>) (fst (stop w))
       in player (fst r) = \<lparr>queue = queue (player w), current_song = Some t\<rparr>
          \<and> voice_client (fst r) = Some (vc\<lparr>is_playing := True\<rparr>)
          \<and> new_effects (fst (stop w)) (fst r) = [Voice_play (Some t)]
          \<and> snd r = None)
    \<and> (is_playing vc \<and> queue (player w) = x # rest \<longrightarrow>
         skip (skip_track expansion mode) w =
           (w\<lparr>voice_client := Some (vc\<lparr>is_playing := True\<rparr>),
              player := \<lparr>queue = rest, current_song = x\<rparr>,
              out := out w @ [Voice_stop, Voice_play x]\<rparr>, None))
    \<and> (is_playing vc \<and> queue (player w) = [] \<and> (mode = NONE \<or> expansion mode = []) \<longrightarrow>
         skip (skip_track expansion mode) w =
           (w\<lparr>voice_client := Some (vc\<lparr>is_playing := False\<rparr>),
              player := \<lparr>queue = [], current_song = None\<rparr>,
              out := out w @ [Voice_stop]
                       @ (if mode = NONE then [] else [Autoplay_expansion mode])
                       @ [Notice queue_is_empty]\<rparr>, None))
    \<and> (is_playing vc \<and> queue (player w) = [] \<and> mode \<noteq> NONE \<and> expansion mode = y # ys \<longrightarrow>
         skip (skip_track expansion mode) w =
           (w\<lparr>voice_client := Some (vc\<lparr>is_playing := True\<rparr>),
              player := \<lparr>queue = map Some ys, current_song = Some y\<rparr>,
              out := out w @ [Voice_stop, Autoplay_expansion mode, Voice_play (Some y)]\<rparr>,
            None))"
proof -
  have s: "stop w =
      (w\<lparr>voice_client := Some (vc\<lparr>is_playing := False\<rparr>),
         player := \<lparr>queue = Some t # queue (player w), current_song = None\<rparr>,
         out := out w @ [Voice_stop, Notice stopping_queue_playback]\<rparr>, None)"
    using assms by (simp add: stop_def emit_def Let_def)
  have r: "let r = startQueuePlayback expansion mode (vc\<lparr>is_playing := False\<rparr>) (fst (stop w))
       in player (fst r) = \<lparr>queue = queue (player w), current_song = Some t\<rparr>
          \<and> voice_client (fst r) = Some (vc\<lparr>is_playing := True\<rparr>)
          \<and> new_effects (fst (stop w)) (fst r) = [Voice_play (Some t)]
          \<and> snd r = None"
    unfolding s by (simp add: startQueuePlayback_def emit_def Let_def new_effects_def)
  note k1 = skip_next_in_queue [OF assms(1), of x rest expansion mode]
  note k2 = skip_nothing_left [OF assms(1), of mode expansion]
  note k3 = skip_autoplay [OF assms(1), of mode expansion y ys]
  from s r k1 k2 k3 show ?thesis by blast
qed

theorem stop_requeues_current_track_witness:
  "voice_client playing_a = Some \<lparr>is_playing = True\<rparr>
   \<and> current_song (player playing_a) = Some song_a
   \<and> is_playing \<lparr>is_playing = True\<rparr>
   \<and> queue (player playing_a) = Some song_b # []
   \<and> stop playing_a =
       (playing_a\<lparr>voice_client := Some (\<lparr>is_playing = True\<rparr>\<lparr>is_playing := False\<rparr>),
          player := \<lparr>queue = Some song_a # queue (player playing_a), current_song = None\<rparr>,
          out := out playing_a @ [Voice_stop, Notice stopping_queue_playback]\<rparr>, None)
   \<and> player (fst (startQueuePlayback (\<lambda>m. []) NONE (\<lparr>is_playing = True\<rparr>\<lparr>is_playing := False\<rparr>)
                      (fst (stop playing_a))))
       = \<lparr>queue = queue (player playing_a), current_song = Some song_a\<rparr>
   \<and> skip (skip_track (\<lambda>m. []) NONE) playing_a =
       (playing_a\<lparr>voice_client := Some (\<lparr>is_playing = True\<rparr>\<lparr>is_playing := True\<rparr>),
          player := \<lparr>queue = [], current_song = Some song_b\<rparr>,
          out := out playing_a @ [Voice_stop, Voice_play (Some song_b)]\<rparr>, None)
   \<and> voice_client playing_only_a = Some \<lparr>is_playing = True\<rparr>
   \<and> current_song (player playing_only_a) = Some song_a
   \<and> queue (player playing_only_a) = []
   \<and> skip (skip_track (\<lambda>m. []) NONE) playing_only_a =
       (playing_only_a\<lparr>voice_client := Some (\<lparr>is_playing = True\<rparr>\<lparr>is_playing := False\<rparr>),
          player := \<lparr>queue = [], current_song = None\<rparr>,
          out := out playing_only_a @ [Voice_stop] @ [] @ [Notice queue_is_empty]\<rparr>, None)
   \<and> skip (skip_track (\<lambda>m. [song_b]) RANDOM) playing_only_a =
       (playing_only_a\<lparr>voice_client := Some (\<lparr>is_playing = True\<rparr>\<lparr>is_playing := True\<rparr>),
          player := \<lparr>queue = map Some [], current_song = Some song_b\<rparr>,
          out := out playing_only_a @ [Voice_stop, Autoplay_expansion RANDOM, Voice_play (Some song_b)]\<rparr>,
        None)"
proof -
  have h1: "voice_client playing_a = Some \<lparr>is_playing = True\<rparr>"
    by (simp add: playing_a_def)
  have h2: "current_song (player playing_a) = Some song_a"
    by (simp add: playing_a_def)
  have h3: "is_playing \<lparr>is_playing = True\<rparr>"
    by simp
  have h4: "queue (player playing_a) = Some song_b # []"
    by (simp add: playing_a_def)
  have g1: "voice_client playing_only_a = Some \<lparr>is_playing = True\<rparr>"
    by (simp add: playing_only_a_def)
  have g2: "current_song (player playing_only_a) = Some song_a"
    by (simp add: playing_only_a_def)
  have g3: "queue (player playing_only_a) = []"
    by (simp add: playing_only_a_def)
  have m: "RANDOM \<noteq> NONE"
    by simp
  note a = stop_requeues_current_track [OF h1 h2, where expansion = "\<lambda>m. []" and mode = NONE
      and x = "Some song_b" and rest = "[]", unfolded Let_def]
  note b = stop_requeues_current_track [OF g1 g2, where expansion = "\<lambda>m. []" and mode = NONE,
      unfolded Let_def]
  note c = stop_requeues_current_track [OF g1 g2, where expansion = "\<lambda>m. [song_b]"
      and mode = RANDOM and y = song_b and ys = "[]", unfolded Let_def]
  have b': "skip (skip_track (\<lambda>m. []) NONE) playing_only_a =
       (playing_only_a\<lparr>voice_client := Some (\<lparr>is_playing = True\<rparr>\<lparr>is_playing := False\<rparr>),
          player := \<lparr>queue = [], current_song = None\<rparr>,
          out := out playing_only_a @ [Voice_stop] @ [] @ [Notice queue_is_empty]\<rparr>, None)"
    using b h3 g3 by simp
  have c': "skip (skip_track (\<lambda>m. [song_b]) RANDOM) playing_only_a =
       (playing_only_a\<lparr>voice_client := Some (\<lparr>is_playing = True\<rparr>\<lparr>is_playing := True\<rparr>),
          player := \<lparr>queue = map Some [], current_song = Some song_b\<rparr>,
          out := out playing_only_a @ [Voice_stop, Autoplay_expansion RANDOM, Voice_play (Some song_b)]\<rparr>,
        None)"
    using c h3 g3 m by simp
  from a h1 h2 h3 h4 g1 g2 g3 b' c' show ?thesis by blast
qed

subsection \<open>play\<close>

text \<open>
  C6. A \<open>startQueuePlayback\<close> that finds no track streaming invokes autoplay expansion
  if and only if the queue is empty and the mode is not \<open>NONE\<close>. When \<open>play\<close> is called
  with no query, an empty queue and mode \<open>NONE\<close>, \<open>play_audio_queue\<close> is never reached
  (the result does not depend on it) and the player, so the queue and \<open>current_song\<close>, is
  as before; if moreover the user is in a voice channel and the bot has or obtains a
  voice client that is not playing, the handler reports "Queue is empty." and returns.
  With no query in any other case of queue and mode, under the same conditions, the
  handler announces the start and calls \<open>play_audio_queue\<close>.
\<close>

theorem autoplay_gate:
  "(\<not> is_playing vc \<longrightarrow>
      (\<exists>m. Autoplay_expansion m \<in> set (new_effects w (fst (startQueuePlayback expansion mode vc w))))
        = (queue (player w) = [] \<and> mode \<noteq> NONE))
   \<and> (queue (player w) = [] \<longrightarrow>
        play paq srv sa uv NONE qt None w = play paq' srv sa uv NONE qt None w
        \<and> player (fst (play paq srv sa uv NONE qt None w)) = player w
        \<and> (voice_available uv w \<and> idle w \<longrightarrow>
             play paq srv sa uv NONE qt None w
               = (emit (Notice queue_is_empty) (connected w), None)))
   \<and> (voice_available uv w \<and> idle w \<and> voice_client (connected w) = Some vc'
        \<and> \<not> (queue (player w) = [] \<and> mode = NONE) \<longrightarrow>
        play paq srv sa uv mode qt None w
          = paq vc' (emit (Notice starting_queue_playback) (connected w)))"
  using startQueuePlayback_expansion [of vc w expansion mode]
    play_no_query_independent [of w paq srv sa uv qt paq']
    play_no_query_player [of w paq srv sa uv qt]
    play_no_query_reports [of w uv paq srv sa qt]
    play_start_attempt [of uv w vc' mode paq srv sa qt]
  by blast

theorem autoplay_gate_witness:
  "\<not> is_playing \<lparr>is_playing = False\<rparr>
   \<and> queue (player silent) = []
   \<and> voice_available (Some Connects) silent \<and> idle silent
   \<and> voice_client (connected silent) = Some \<lparr>is_playing = False\<rparr>
   \<and> (\<exists>m. Autoplay_expansion m
         \<in> set (new_effects silent
                  (fst (startQueuePlayback (\<lambda>m. [song_a]) RANDOM \<lparr>is_playing = False\<rparr> silent))))
   \<and> play (startQueuePlayback (\<lambda>m. [song_a]) NONE) (\<lambda>r. Inl OtherException) (\<lambda>q. Inr None)
        (Some Connects) NONE None None silent
       = (emit (Notice queue_is_empty) silent, None)
   \<and> play (startQueuePlayback (\<lambda>m. [song_a]) NONE) (\<lambda>r. Inl OtherException) (\<lambda>q. Inr None)
        (Some Connects) RANDOM None None silent
       = startQueuePlayback (\<lambda>m. [song_a]) NONE \<lparr>is_playing = False\<rparr>
           (emit (Notice starting_queue_playback) silent)"
  using autoplay_gate [where vc = "\<lparr>is_playing = False\<rparr>" and w = silent
          and expansion = "\<lambda>m. [song_a]" and mode = RANDOM
          and paq = "startQueuePlayback (\<lambda>m. [song_a]) NONE" and srv = "\<lambda>r. Inl OtherException"
          and sa = "\<lambda>q. Inr None" and uv = "Some Connects" and qt = None
          and vc' = "\<lparr>is_playing = False\<rparr>"]
  by (simp add: silent_def voice_available_def idle_def connected_def)

text \<open>
  C6, without the conditions on the voice channel, fails: called with no query, an
  empty queue and mode \<open>NONE\<close> by a user who is in no voice channel, \<open>play\<close> reports
  "You are not connected to a voice channel." and not "Queue is empty.".
\<close>

theorem play_no_query_user_not_in_voice:
  "queue (player silent) = []
   \<and> play (startQueuePlayback (\<lambda>m. []) NONE) (\<lambda>r. Inl OtherException) (\<lambda>q. Inr None)
        None NONE None None silent
       = (emit (Notice user_not_in_voice_channel) silent, None)
   \<and> Notice queue_is_empty
       \<notin> set (out (fst (play (startQueuePlayback (\<lambda>m. []) NONE) (\<lambda>r. Inl OtherException)
                             (\<lambda>q. Inr None) None NONE None None silent)))"
  by (simp add: play_def silent_def emit_def queue_is_empty_def user_not_in_voice_channel_def)

text \<open>
  C7. When the search for a track query returns no track, \<open>play\<close> leaves the player, so
  the queue with its length and contents, as it was, and never reaches
  \<open>play_audio_queue\<close>. The handler gets to the search when the user is in a voice channel
  and the bot has or obtains a voice client; it then reports "No track found for
  **query**." and returns.
\<close>

theorem play_track_not_found:
  assumes "search srv q 0 0 0 0 1 0 = Inr []"
  shows "player (fst (play paq srv sa uv mode (Some ''track'') (Some q) w)) = player w
    \<and> play paq srv sa uv mode (Some ''track'') (Some q) w
        = play paq' srv sa uv mode (Some ''track'') (Some q) w
    \<and> (voice_available uv w \<longrightarrow>
         play paq srv sa uv mode (Some ''track'') (Some q) w
           = (emit (Notice (ErrMsg (''No track found for **'' @ q @ ''**.''))) (connected w),
              None))"
  using play_track_not_found_player [OF assms, of paq sa uv mode w]
    play_track_not_found_independent [OF assms, of paq sa uv mode w paq']
    play_track_not_found_reports [OF assms, of uv w paq sa mode]
  by blast

theorem play_track_not_found_witness:
  "search (\<lambda>r. Inr empty_reply) ''nothing'' 0 0 0 0 1 0 = Inr []
   \<and> voice_available (Some Connects) queued_b
   \<and> player (fst (play (startQueuePlayback (\<lambda>m. []) NONE) (\<lambda>r. Inr empty_reply) (\<lambda>q. Inr None)
                     (Some Connects) NONE (Some ''track'') (Some ''nothing'') queued_b))
       = player queued_b
   \<and> play (startQueuePlayback (\<lambda>m. []) NONE) (\<lambda>r. Inr empty_reply) (\<lambda>q. Inr None)
        (Some Connects) NONE (Some ''track'') (Some ''nothing'') queued_b
       = (emit (Notice (ErrMsg (''No track found for **'' @ ''nothing'' @ ''**.'')))
            (connected queued_b), None)"
proof -
  have h: "search (\<lambda>r. Inr empty_reply) ''nothing'' 0 0 0 0 1 0 = Inr []"
    by (simp add: search_def songs_of_response_def empty_reply_def)
  have v: "voice_available (Some Connects) queued_b"
    by (simp add: voice_available_def)
  from play_track_not_found [OF h, where paq = "startQueuePlayback (\<lambda>m. []) NONE"
      and sa = "\<lambda>q. Inr None" and uv = "Some Connects" and mode = NONE and w = queued_b] h v
  show ?thesis by blast
qed

text \<open>
  C8. When \<open>play\<close> is called with query type album, gets to the search (the user is in a
  voice channel and the bot has or obtains a voice client) and the search returns an
  album, the handler appends the album's songs to the queue in the album's order, behind
  the entries already there, announces the album, and calls \<open>play_audio_queue\<close> on the
  state with that queue: the entries before, then the N songs of the album.
\<close>

theorem play_album_appends_tracks:
  assumes "voice_available uv w" and "sa q = Inr (Some a)"
    and "voice_client (connected w) = Some vc"
  shows "let w' = emit (Notice (SysMsg_added_album_to_queue a))
                    ((connected w)\<lparr>player := (player w)
                         \<lparr>queue := queue (player w) @ map Some (songs a)\<rparr>\<rparr>)
         in play paq srv sa uv mode (Some ''album'') (Some q) w = paq vc w'
            \<and> queue (player w') = queue (player w) @ map Some (songs a)
            \<and> length (queue (player w')) = length (queue (player w)) + length (songs a)
            \<and> current_song (player w') = current_song (player w)"
proof -
  have u: "uv \<noteq> None"
    using assms(1) by (simp add: voice_available_def)
  have g: "get_voice_client uv True w = (connected w, None)"
    using assms(1) by (rule get_voice_client_available)
  have "play paq srv sa uv mode (Some ''album'') (Some q) w
     = paq vc
         (emit (Notice (SysMsg_added_album_to_queue a))
            ((connected w)\<lparr>player := (player w)
                 \<lparr>queue := queue (player w) @ map Some (songs a)\<rparr>\<rparr>))"
    by (simp add: play_def u g assms(2,3) append_all_eq player_connected)
  then show ?thesis
    by (simp add: Let_def player_emit)
qed

theorem play_album_appends_tracks_witness:
  "voice_available (Some Connects) queued_b
   \<and> voice_client (connected queued_b) = Some \<lparr>is_playing = False\<rparr>
   \<and> queue (player (fst (play (\<lambda>vc w. (w, None)) (\<lambda>r. Inl OtherException)
                            (\<lambda>q. Inr (Some album_ab)) (Some Connects) NONE
                            (Some ''album'') (Some ''ab'') queued_b)))
       = [Some song_b, Some song_a, Some song_b]"
proof -
  have v: "voice_available (Some Connects) queued_b"
    by (simp add: voice_available_def)
  have c: "voice_client (connected queued_b) = Some \<lparr>is_playing = False\<rparr>"
    by (simp add: connected_def queued_b_def emit_def)
  have s: "(\<lambda>q. Inr (Some album_ab)) ''ab'' = (Inr (Some album_ab) :: exn + Album option)"
    by simp
  show ?thesis
    using play_album_appends_tracks [OF v s c, where paq = "\<lambda>vc w. (w, None)"
        and srv = "\<lambda>r. Inl OtherException" and mode = NONE] v c
    by (simp add: Let_def player_emit queued_b_def album_ab_def)
qed

subsection \<open>on_voice_state_update\<close>

text \<open>
  C9. The listener returns at once, changing nothing, when the bot has no voice client
  or the channel does not have exactly 1 member. Otherwise it waits 10 and reads the
  member count again: if that is not 1 (so also when 2 or more members are back), it
  only logs, and player and voice client are as the wait left them; if it is 1 again, it
  disconnects, and the queue is empty and \<open>current_song\<close> is \<open>None\<close>. So it disconnects
  and clears only when the count is 1 at both reads.
\<close>

theorem occupancy_recheck:
  "(voice_client w = None \<or> members_before \<noteq> 1 \<longrightarrow>
      on_voice_state_update during_sleep members_before members_after w = w)
   \<and> (voice_client w \<noteq> None \<and> members_before = 1 \<longrightarrow>
       (let w1 = during_sleep (emit (Wait 10) (emit Log_debug_alone w));
            w' = on_voice_state_update during_sleep members_before members_after w
        in (members_after \<noteq> 1 \<longrightarrow>
              player w' = player w1 \<and> voice_client w' = voice_client w1
              \<and> out w' = out w1 @ [Log_debug_aborting])
         \<and> (2 \<le> members_after \<longrightarrow> w' = emit Log_debug_aborting w1)
         \<and> (members_after = 1 \<longrightarrow>
              player w' = \<lparr>queue = [], current_song = None\<rparr> \<and> voice_client w' = None
              \<and> out w' = out w1 @ [Voice_disconnect, Log_info_disconnected])))"
  by (cases "voice_client w")
     (auto simp: on_voice_state_update_def emit_def Let_def)

theorem occupancy_recheck_witness:
  "voice_client playing_a \<noteq> None
   \<and> on_voice_state_update (\<lambda>w. w) 1 2 playing_a
       = emit Log_debug_aborting (emit (Wait 10) (emit Log_debug_alone playing_a))
   \<and> player (on_voice_state_update (\<lambda>w. w) 1 2 playing_a) = player playing_a
   \<and> player (on_voice_state_update (\<lambda>w. w) 1 1 playing_a) = \<lparr>queue = [], current_song = None\<rparr>
   \<and> on_voice_state_update (\<lambda>w. w) 3 1 playing_a = playing_a"
  using occupancy_recheck [of playing_a 1 "\<lambda>w. w" 2] occupancy_recheck [of playing_a 1 "\<lambda>w. w" 1]
    occupancy_recheck [of playing_a 3 "\<lambda>w. w" 1]
  by (simp add: playing_a_def Let_def emit_def)


end
